theory Spec2Isabelle
  imports Complex_Main "HOL-Library.Word" "HOL-Library.Monad_Syntax"
begin

unbundle bit_operations_syntax

section \<open>JavaScript values used by \<open>speak\<close>\<close>

text \<open>
  A JavaScript string is a sequence of UTF-16 code units. A Number is modelled as an
  exact rational: every Number that \<open>speak\<close> computes is an integer (or 16 / 8), and
  Number arithmetic on integers is exact below \<open>2 ^ 53\<close>, which covers every
  string length below \<open>2 ^ 53 - 36\<close>.
\<close>

type_synonym jsstring = "16 word list"
type_synonym number = rat
type_synonym byte = "8 word"

definition js :: "string \<Rightarrow> jsstring" where
  "js s = map (\<lambda>c. of_nat (of_char c)) s"

definition charCode :: "16 word \<Rightarrow> number" where
  "charCode c = of_nat (unat c)"

datatype error =
    ApiError
  | PlayRejected
  | TypeError
  | InvalidCharacterError
  | RangeError

text \<open>ToInteger of a finite Number truncates towards zero; the typed stores then keep
  the low 8, 16 or 32 bits.\<close>

definition ToInteger :: "number \<Rightarrow> int" where
  "ToInteger x = (if x < 0 then \<lceil>x\<rceil> else \<lfloor>x\<rfloor>)"

definition ToUint8 :: "number \<Rightarrow> byte" where
  "ToUint8 x = word_of_int (ToInteger x)"

definition ToUint16 :: "number \<Rightarrow> 16 word" where
  "ToUint16 x = word_of_int (ToInteger x)"

definition ToUint32 :: "number \<Rightarrow> 32 word" where
  "ToUint32 x = word_of_int (ToInteger x)"

section \<open>ArrayBuffer and DataView\<close>

text \<open>\<open>new ArrayBuffer(n)\<close> is \<open>n\<close> zero bytes. A DataView store outside the buffer
  throws a RangeError.\<close>

type_synonym dataview = "byte list"

definition ArrayBuffer :: "nat \<Rightarrow> dataview" where
  "ArrayBuffer n = replicate n 0"

definition setUint8 :: "nat \<Rightarrow> number \<Rightarrow> dataview \<Rightarrow> error + dataview" where
  "setUint8 byteOffset v view =
     (if byteOffset + 1 \<le> length view
      then Inr (view[byteOffset := ToUint8 v])
      else Inl RangeError)"

definition setUint16 :: "nat \<Rightarrow> number \<Rightarrow> bool \<Rightarrow> dataview \<Rightarrow> error + dataview" where
  "setUint16 byteOffset v littleEndian view =
     (if byteOffset + 2 \<le> length view
      then (let w = ToUint16 v;
                lo = (ucast w :: byte);
                hi = (ucast (drop_bit 8 w) :: byte)
            in Inr (if littleEndian
                    then view[byteOffset := lo, byteOffset + 1 := hi]
                    else view[byteOffset := hi, byteOffset + 1 := lo]))
      else Inl RangeError)"

definition setUint32 :: "nat \<Rightarrow> number \<Rightarrow> bool \<Rightarrow> dataview \<Rightarrow> error + dataview" where
  "setUint32 byteOffset v littleEndian view =
     (if byteOffset + 4 \<le> length view
      then (let w = ToUint32 v;
                b0 = (ucast w :: byte);
                b1 = (ucast (drop_bit 8 w) :: byte);
                b2 = (ucast (drop_bit 16 w) :: byte);
                b3 = (ucast (drop_bit 24 w) :: byte)
            in Inr (if littleEndian
                    then view[byteOffset := b0, byteOffset + 1 := b1,
                              byteOffset + 2 := b2, byteOffset + 3 := b3]
                    else view[byteOffset := b3, byteOffset + 1 := b2,
                              byteOffset + 2 := b1, byteOffset + 3 := b0]))
      else Inl RangeError)"

text \<open>
  \<^verbatim>\<open>
  const writeString = (view, offset, string) => {
    for (let i = 0; i < string.length; i++) {
      view.setUint8(offset + i, string.charCodeAt(i));
    }
  };
  \<close>
  The loop runs over the code units in order; the first store that throws ends it.
\<close>

fun writeString :: "nat \<Rightarrow> jsstring \<Rightarrow> dataview \<Rightarrow> error + dataview" where
  "writeString offset [] view = Inr view"
| "writeString offset (c # cs) view =
     (case setUint8 offset (charCode c) view of
        Inl e \<Rightarrow> Inl e
      | Inr view' \<Rightarrow> writeString (offset + 1) cs view')"

text \<open>A block of statements on one DataView: each runs on the buffer the previous one
  left, and the first exception ends the block.\<close>

fun statements :: "(dataview \<Rightarrow> error + dataview) list \<Rightarrow> dataview \<Rightarrow> error + dataview" where
  "statements [] view = Inr view"
| "statements (s # ss) view =
     (case s view of Inl e \<Rightarrow> Inl e | Inr view' \<Rightarrow> statements ss view')"

section \<open>The WAV header of \<open>speak\<close> (lines 164 to 195)\<close>

definition sampleRate :: number where "sampleRate = 24000"
definition numChannels :: number where "numChannels = 1"
definition bitsPerSample :: number where "bitsPerSample = 16"

definition wavHeader :: "nat \<Rightarrow> error + dataview" where
  "wavHeader len =
     statements
       [ writeString 0 (js ''RIFF''),
         setUint32 4 (36 + of_nat len) True,
         writeString 8 (js ''WAVE''),
         writeString 12 (js ''fmt ''),
         setUint32 16 16 True,
         setUint16 20 1 True,
         setUint16 22 numChannels True,
         setUint32 24 sampleRate True,
         setUint32 28 (sampleRate * numChannels * (bitsPerSample / 8)) True,
         setUint16 32 (numChannels * (bitsPerSample / 8)) True,
         setUint16 34 bitsPerSample True,
         writeString 36 (js ''data''),
         setUint32 40 (of_nat len) True ]
       (ArrayBuffer 44)"

section \<open>From the base64 payload to the bytes of the blob (lines 155 to 199)\<close>

text \<open>
  \<^verbatim>\<open>
  const len = binaryString.length;
  const bytes = new Uint8Array(len);
  for (let i = 0; i < len; i++) { bytes[i] = binaryString.charCodeAt(i); }
  \<close>
  A store into a Uint8Array keeps the low 8 bits; a store past its end is ignored, as
  \<open>list_update\<close> does.
\<close>

definition Uint8Array :: "nat \<Rightarrow> byte list" where
  "Uint8Array n = replicate n 0"

fun fillBytes :: "nat \<Rightarrow> jsstring \<Rightarrow> byte list \<Rightarrow> byte list" where
  "fillBytes i [] bytes = bytes"
| "fillBytes i (c # cs) bytes = fillBytes (i + 1) cs (bytes[i := ToUint8 (charCode c)])"

text \<open>\<open>target.set(source, offset)\<close> on typed arrays throws a RangeError when the
  source does not fit.\<close>

definition typedArraySet :: "byte list \<Rightarrow> nat \<Rightarrow> byte list \<Rightarrow> error + byte list" where
  "typedArraySet source offset target =
     (if offset + length source \<le> length target
      then Inr (take offset target @ source @ drop (offset + length source) target)
      else Inl RangeError)"

definition pcmToWav :: "jsstring \<Rightarrow> error + byte list" where
  "pcmToWav binaryString =
     (let len = length binaryString;
          bytes = fillBytes 0 binaryString (Uint8Array len)
      in case wavHeader len of
           Inl e \<Rightarrow> Inl e
         | Inr header \<Rightarrow>
             (case typedArraySet header 0 (Uint8Array (length header + len)) of
                Inl e \<Rightarrow> Inl e
              | Inr wavBytes \<Rightarrow> typedArraySet bytes (length header) wavBytes))"

section \<open>The platform around \<open>speak\<close>\<close>

text \<open>The response of \<open>ai.models.generateContent\<close>, with every field that the optional
  chain of line 143 reads.\<close>

datatype inline_data = InlineData (data: "jsstring option")
datatype part = Part (inlineData: "inline_data option")
datatype content = Content (parts: "part list option")
datatype candidate = Candidate (content: "content option")
datatype response = Response (candidates: "candidate list option")

text \<open>What an audio element plays: a URL given as a string, or the object URL of a Blob
  with its bytes and type.\<close>

datatype url = StringUrl jsstring | ObjectUrl "byte list" string

record audio =
  audio_id :: nat
  audio_src :: url

datatype event =
    Pause audio
  | SpeechCancel
  | GenerateContent jsstring
  | Play audio
  | ConsoleLog
  | NewAudioContext
  | Atob jsstring
  | CreateObjectURL "byte list" string
  | ConsoleError error
  | SpeechSpeak jsstring string

text \<open>
  The platform is a parameter: whether \<open>speechSynthesis\<close> exists, what the backend
  answers to a request text (\<open>None\<close>: the call rejects), whether \<open>play()\<close> on a
  source resolves, whether an AudioContext can be constructed, and what \<open>atob\<close>
  returns (\<open>None\<close>: it throws InvalidCharacterError).
\<close>

record env =
  speechSynthesis_in_window :: bool
  generateContent :: "jsstring \<Rightarrow> response option"
  audio_play :: "url \<Rightarrow> bool"
  AudioContext_constructs :: bool
  atob :: "jsstring \<Rightarrow> jsstring option"

text \<open>
  The state: \<open>audioRef.current\<close>, the audio elements that are playing (an element
  stays there until it is paused), the utterances queued in \<open>speechSynthesis\<close>, the
  identity of the next element created, and the trace of platform calls in order.
\<close>

record state =
  audioRef_current :: "audio option"
  playing :: "audio list"
  utterances :: "(jsstring \<times> string) list"
  next_id :: nat
  trace :: "event list"

definition emit :: "event \<Rightarrow> state \<Rightarrow> state" where
  "emit e st = st\<lparr>trace := trace st @ [e]\<rparr>"

definition events_since :: "state \<Rightarrow> state \<Rightarrow> event list" where
  "events_since st st' = drop (length (trace st)) (trace st')"

definition newAudio :: "url \<Rightarrow> state \<Rightarrow> audio \<times> state" where
  "newAudio u st = (\<lparr>audio_id = next_id st, audio_src = u\<rparr>, st\<lparr>next_id := next_id st + 1\<rparr>)"

text \<open>\<open>s.substring(a, b)\<close> for non-negative integers: both ends are clamped to the
  length and swapped when out of order.\<close>

definition substring :: "jsstring \<Rightarrow> nat \<Rightarrow> nat \<Rightarrow> jsstring" where
  "substring s a b =
     (let a' = min a (length s); b' = min b (length s);
          from = min a' b'; to = max a' b'
      in take (to - from) (drop from s))"

definition index0 :: "'a list option \<Rightarrow> 'a option" where
  "index0 xs = (case xs of None \<Rightarrow> None | Some [] \<Rightarrow> None | Some (x # _) \<Rightarrow> Some x)"

text \<open>Line 143:
  \<^verbatim>\<open>response.candidates?.[0]?.content?.parts?.[0]?.inlineData?.data\<close>\<close>

definition base64Audio_of :: "response \<Rightarrow> jsstring option" where
  "base64Audio_of response =
     index0 (candidates response) \<bind> content \<bind> (\<lambda>c. index0 (parts c)) \<bind> inlineData \<bind> data"

definition truthy :: "jsstring option \<Rightarrow> bool" where
  "truthy v = (case v of None \<Rightarrow> False | Some s \<Rightarrow> s \<noteq> [])"

section \<open>\<open>speak\<close>, piece by piece\<close>

text \<open>Lines 119 to 127: pause and forget the recorded element, cancel native speech.\<close>

definition stopExisting :: "env \<Rightarrow> state \<Rightarrow> state" where
  "stopExisting env st =
     (let st1 = (case audioRef_current st of
                   Some a \<Rightarrow> (emit (Pause a) st)\<lparr>playing := removeAll a (playing st),
                                                 audioRef_current := None\<rparr>
                 | None \<Rightarrow> st)
      in if speechSynthesis_in_window env
         then (emit SpeechCancel st1)\<lparr>utterances := []\<rparr>
         else st1)"

text \<open>Lines 130 to 141: the request, with the text cut by \<open>text.substring(0, 300)\<close>.\<close>

definition requestText :: "jsstring \<Rightarrow> jsstring" where
  "requestText text = substring text 0 300"

definition callGenerateContent :: "jsstring \<Rightarrow> state \<Rightarrow> state" where
  "callGenerateContent text st = emit (GenerateContent (requestText text)) st"

text \<open>Lines 148 and 149 up to the \<open>await\<close>: the element for the data URI, and the call
  of \<open>play()\<close>.\<close>

definition dataUri :: "jsstring \<Rightarrow> url" where
  "dataUri base64Audio = StringUrl (js ''data:audio/wav;base64,'' @ base64Audio)"

definition startDirect :: "jsstring \<Rightarrow> state \<Rightarrow> audio \<times> state" where
  "startDirect base64Audio st =
     (let (audio, st1) = newAudio (dataUri base64Audio) st
      in (audio, emit (Play audio) st1))"

text \<open>The promise of \<open>play()\<close> settles: the element plays, or the promise rejects.\<close>

definition settle :: "env \<Rightarrow> audio \<Rightarrow> state \<Rightarrow> (error + unit) \<times> state" where
  "settle env audio st =
     (if audio_play env (audio_src audio)
      then (Inr (), st\<lparr>playing := playing st @ [audio]\<rparr>)
      else (Inl PlayRejected, st))"

text \<open>Lines 150 and 205: \<open>audioRef.current = audio\<close>.\<close>

definition setRef :: "audio \<Rightarrow> state \<Rightarrow> state" where
  "setRef audio st = st\<lparr>audioRef_current := Some audio\<rparr>"

text \<open>Lines 152 to 204 up to the \<open>await\<close>: the catch block of the direct attempt.\<close>

definition startPcm :: "env \<Rightarrow> jsstring \<Rightarrow> state \<Rightarrow> (error + audio) \<times> state" where
  "startPcm env base64Audio st =
     (let st1 = emit ConsoleLog st
      in if \<not> AudioContext_constructs env then (Inl TypeError, st1)
         else
           (let st2 = emit (Atob base64Audio) (emit NewAudioContext st1)
            in case atob env base64Audio of
                 None \<Rightarrow> (Inl InvalidCharacterError, st2)
               | Some binaryString \<Rightarrow>
                   (case pcmToWav binaryString of
                      Inl e \<Rightarrow> (Inl e, st2)
                    | Inr wavBytes \<Rightarrow>
                        (let st3 = emit (CreateObjectURL wavBytes ''audio/wav'') st2;
                             (audio, st4) = newAudio (ObjectUrl wavBytes ''audio/wav'') st3
                         in (Inr audio, emit (Play audio) st4)))))"

text \<open>Lines 147 to 206: the inner \<open>try\<close> with its \<open>catch\<close>. An exception of the catch
  block leaves the statement.\<close>

definition playBase64 :: "env \<Rightarrow> jsstring \<Rightarrow> state \<Rightarrow> (error + unit) \<times> state" where
  "playBase64 env base64Audio st =
     (let (audio, st1) = startDirect base64Audio st
      in case settle env audio st1 of
           (Inr _, st2) \<Rightarrow> (Inr (), setRef audio st2)
         | (Inl _, st2) \<Rightarrow>
             (case startPcm env base64Audio st2 of
                (Inl e, st3) \<Rightarrow> (Inl e, st3)
              | (Inr audio', st3) \<Rightarrow>
                  (case settle env audio' st3 of
                     (Inr _, st4) \<Rightarrow> (Inr (), setRef audio' st4)
                   | (Inl e, st4) \<Rightarrow> (Inl e, st4))))"

text \<open>Lines 145 to 207: \<open>if (base64Audio) { ... }\<close>.\<close>

definition playAudio :: "env \<Rightarrow> jsstring option \<Rightarrow> state \<Rightarrow> (error + unit) \<times> state" where
  "playAudio env base64Audio st =
     (if truthy base64Audio then playBase64 env (the base64Audio) st else (Inr (), st))"

text \<open>Lines 118 to 207: the body of the outer \<open>try\<close>.\<close>

definition speakTry :: "env \<Rightarrow> jsstring \<Rightarrow> state \<Rightarrow> (error + unit) \<times> state" where
  "speakTry env text st =
     (let st1 = callGenerateContent text (stopExisting env st)
      in case generateContent env (requestText text) of
           None \<Rightarrow> (Inl ApiError, st1)
         | Some response \<Rightarrow> playAudio env (base64Audio_of response) st1)"

text \<open>Lines 208 to 216: the outer \<open>catch\<close>, with the native fallback on the whole text.\<close>

definition onError :: "env \<Rightarrow> jsstring \<Rightarrow> error \<Rightarrow> state \<Rightarrow> state" where
  "onError env text err st =
     (let st1 = emit (ConsoleError err) st
      in if speechSynthesis_in_window env
         then (emit (SpeechSpeak text ''ar-SA'') st1)
                \<lparr>utterances := utterances st1 @ [(text, ''ar-SA'')]\<rparr>
         else st1)"

definition speak :: "env \<Rightarrow> jsstring \<Rightarrow> state \<Rightarrow> state" where
  "speak env text st =
     (case speakTry env text st of
        (Inr _, st') \<Rightarrow> st'
      | (Inl err, st') \<Rightarrow> onError env text err st')"

section \<open>Calls of \<open>speak\<close> that overlap\<close>

text \<open>
  \<open>speak\<close> is an async function that no caller awaits (lines 340, 407, 425, 471 and
  the button of line 564). It runs from one \<open>await\<close> to the next without interruption,
  and other calls can run in between. A call that is suspended waits for the backend,
  for the direct \<open>play()\<close> or for the \<open>play()\<close> of the blob.
\<close>

datatype task =
    AwaitGenerate
  | AwaitDirect audio jsstring
  | AwaitPcm audio
  | Finished

definition enter :: "env \<Rightarrow> jsstring \<Rightarrow> state \<Rightarrow> task \<times> state" where
  "enter env text st = (AwaitGenerate, callGenerateContent text (stopExisting env st))"

fun resume :: "env \<Rightarrow> jsstring \<Rightarrow> task \<Rightarrow> state \<Rightarrow> task \<times> state" where
  "resume env text AwaitGenerate st =
     (case generateContent env (requestText text) of
        None \<Rightarrow> (Finished, onError env text ApiError st)
      | Some response \<Rightarrow>
          (if truthy (base64Audio_of response)
           then (let (audio, st1) = startDirect (the (base64Audio_of response)) st
                 in (AwaitDirect audio (the (base64Audio_of response)), st1))
           else (Finished, st)))"
| "resume env text (AwaitDirect audio base64Audio) st =
     (case settle env audio st of
        (Inr _, st2) \<Rightarrow> (Finished, setRef audio st2)
      | (Inl _, st2) \<Rightarrow>
          (case startPcm env base64Audio st2 of
             (Inl e, st3) \<Rightarrow> (Finished, onError env text e st3)
           | (Inr audio', st3) \<Rightarrow> (AwaitPcm audio', st3)))"
| "resume env text (AwaitPcm audio) st =
     (case settle env audio st of
        (Inr _, st2) \<Rightarrow> (Finished, setRef audio st2)
      | (Inl e, st2) \<Rightarrow> (Finished, onError env text e st2))"
| "resume env text Finished st = (Finished, st)"

datatype action = Call jsstring | Resume nat

type_synonym world = "(jsstring \<times> task) list \<times> state"

fun exec1 :: "env \<Rightarrow> world \<Rightarrow> action \<Rightarrow> world" where
  "exec1 env (calls, st) (Call text) =
     (let (t, st') = enter env text st in (calls @ [(text, t)], st'))"
| "exec1 env (calls, st) (Resume i) =
     (if i < length calls
      then (let (text, t) = calls ! i; (t', st') = resume env text t st
            in (calls[i := (text, t')], st'))
      else (calls, st))"

definition exec :: "env \<Rightarrow> action list \<Rightarrow> world \<Rightarrow> world" where
  "exec env actions w = foldl (exec1 env) w actions"

definition initial :: state where
  "initial = \<lparr>audioRef_current = None, playing = [], utterances = [], next_id = 0, trace = []\<rparr>"

section \<open>The header table of the specification\<close>

text \<open>The \<open>k\<close>-byte little-endian encoding of a natural number, by division.\<close>

fun le_bytes :: "nat \<Rightarrow> nat \<Rightarrow> byte list" where
  "le_bytes 0 n = []"
| "le_bytes (Suc k) n = of_nat (n mod 256) # le_bytes k (n div 256)"

fun le_value :: "byte list \<Rightarrow> nat" where
  "le_value [] = 0"
| "le_value (b # bs) = unat b + 256 * le_value bs"

definition ascii :: "string \<Rightarrow> byte list" where
  "ascii s = map (\<lambda>c. of_nat (of_char c)) s"

definition field :: "nat \<Rightarrow> nat \<Rightarrow> byte list \<Rightarrow> byte list" where
  "field offset n bs = take n (drop offset bs)"

text \<open>The table of section 4.2 of the specification, written from its rows: the tags,
  and each number in little-endian bytes, in the order of the offsets.\<close>

definition spec_header :: "nat \<Rightarrow> nat \<Rightarrow> nat \<Rightarrow> nat \<Rightarrow> byte list" where
  "spec_header rate channels bits dataByteLength =
     ascii ''RIFF'' @ le_bytes 4 (36 + dataByteLength) @
     ascii ''WAVE'' @
     ascii ''fmt '' @ le_bytes 4 16 @
     le_bytes 2 1 @
     le_bytes 2 channels @
     le_bytes 4 rate @
     le_bytes 4 (rate * channels * (bits div 8)) @
     le_bytes 2 (channels * (bits div 8)) @
     le_bytes 2 bits @
     ascii ''data'' @ le_bytes 4 dataByteLength"

section \<open>Reading the trace\<close>

text \<open>The request texts sent to the backend, in order.\<close>

fun requests :: "event list \<Rightarrow> jsstring list" where
  "requests [] = []"
| "requests (GenerateContent t # es) = t # requests es"
| "requests (_ # es) = requests es"

text \<open>The utterances handed to \<open>speechSynthesis.speak\<close>, with their language, in
  order.\<close>

fun spoken :: "event list \<Rightarrow> (jsstring \<times> string) list" where
  "spoken [] = []"
| "spoken (SpeechSpeak t l # es) = (t, l) # spoken es"
| "spoken (_ # es) = spoken es"

text \<open>Every element that plays is the one recorded in \<open>audioRef.current\<close>.\<close>

definition recorded_only :: "state \<Rightarrow> bool" where
  "recorded_only st =
     (playing st = (case audioRef_current st of None \<Rightarrow> [] | Some a \<Rightarrow> [a]))"

section \<open>Sample platforms\<close>

text \<open>A payload of ten raw bytes, 0 to 9, in base64, and what \<open>atob\<close> returns for it.\<close>

definition sample_payload :: jsstring where
  "sample_payload = js ''AAECAwQFBgcICQ==''"

definition sample_binary :: jsstring where
  "sample_binary = [0, 1, 2, 3, 4, 5, 6, 7, 8, 9]"

definition sample_response :: response where
  "sample_response =
     Response (Some [Candidate (Some (Content (Some [Part (Some (InlineData (Some sample_payload)))])))])"

text \<open>A platform that rejects the data URI and plays the blob.\<close>

definition env_headerless :: env where
  "env_headerless =
     \<lparr> speechSynthesis_in_window = True,
       generateContent = (\<lambda>_. Some sample_response),
       audio_play = (\<lambda>u. case u of StringUrl _ \<Rightarrow> False | ObjectUrl _ _ \<Rightarrow> True),
       AudioContext_constructs = True,
       atob = (\<lambda>s. if s = sample_payload then Some sample_binary else None) \<rparr>"

text \<open>One that plays the data URI, one that plays nothing, one whose \<open>atob\<close> throws, and
  one whose backend answers without audio.\<close>

definition env_headered :: env where
  "env_headered = env_headerless\<lparr>audio_play := (\<lambda>_. True)\<rparr>"

definition env_unplayable :: env where
  "env_unplayable = env_headerless\<lparr>audio_play := (\<lambda>_. False)\<rparr>"

definition env_malformed :: env where
  "env_malformed = env_unplayable\<lparr>atob := (\<lambda>_. None)\<rparr>"

definition env_no_audio :: env where
  "env_no_audio = env_headerless\<lparr>generateContent := (\<lambda>_. Some (Response None))\<rparr>"

definition env_offline :: env where
  "env_offline = env_headerless\<lparr>generateContent := (\<lambda>_. None)\<rparr>"

definition long_text :: jsstring where
  "long_text = replicate 301 97"

text \<open>A state in which an earlier element is playing and recorded, and an utterance is
  queued.\<close>

definition earlier_audio :: audio where
  "earlier_audio = \<lparr>audio_id = 0, audio_src = dataUri sample_payload\<rparr>"

definition busy :: state where
  "busy = \<lparr>audioRef_current = Some earlier_audio, playing = [earlier_audio],
           utterances = [(js ''hello'', ''ar-SA'')], next_id = 1, trace = []\<rparr>"

section \<open>Little-endian bytes of a word\<close>

lemma byte_of_mod: "(of_nat (n mod 256) :: byte) = of_nat n"
  by (simp add: word_of_nat_eq_iff take_bit_eq_mod)

lemma ucast_drop_of_nat32:
  "k + 8 \<le> 32 \<Longrightarrow>
   (ucast (drop_bit k (word_of_nat n :: 32 word)) :: byte) = of_nat (n div 2 ^ k)"
  by (simp add: word_unat_eq_iff unsigned_ucast_eq unat_drop_bit_eq unsigned_of_nat
      drop_bit_take_bit flip: drop_bit_eq_div)

lemma ucast_of_nat32: "(ucast (word_of_nat n :: 32 word) :: byte) = of_nat n"
  using ucast_drop_of_nat32 [of 0 n] by simp

lemma ucast_drop_of_nat16:
  "k + 8 \<le> 16 \<Longrightarrow>
   (ucast (drop_bit k (word_of_nat n :: 16 word)) :: byte) = of_nat (n div 2 ^ k)"
  by (simp add: word_unat_eq_iff unsigned_ucast_eq unat_drop_bit_eq unsigned_of_nat
      drop_bit_take_bit flip: drop_bit_eq_div)

lemma ucast_of_nat16: "(ucast (word_of_nat n :: 16 word) :: byte) = of_nat n"
  using ucast_drop_of_nat16 [of 0 n] by simp

lemma le_bytes_4:
  "le_bytes 4 n = [of_nat n, of_nat (n div 256), of_nat (n div 65536), of_nat (n div 16777216)]"
proof -
  have "le_bytes (Suc (Suc (Suc (Suc 0)))) n =
      [of_nat n, of_nat (n div 256), of_nat (n div 65536), of_nat (n div 16777216)]"
    by (simp add: byte_of_mod flip: div_mult2_eq)
  moreover have "(4::nat) = Suc (Suc (Suc (Suc 0)))" by simp
  ultimately show ?thesis by (simp only:)
qed

lemma le_bytes_2: "le_bytes 2 n = [of_nat n, of_nat (n div 256)]"
proof -
  have "le_bytes (Suc (Suc 0)) n = [of_nat n, of_nat (n div 256)]"
    by (simp add: byte_of_mod)
  moreover have "(2::nat) = Suc (Suc 0)" by simp
  ultimately show ?thesis by (simp only:)
qed

lemma length_le_bytes: "length (le_bytes k n) = k"
  by (induction k arbitrary: n) simp_all

lemma le_value_le_bytes: "le_value (le_bytes k n) = n mod 256 ^ k"
proof (induction k arbitrary: n)
  case 0
  then show ?case by simp
next
  case (Suc k)
  have "le_value (le_bytes (Suc k) n) = n mod 256 + 256 * (n div 256 mod 256 ^ k)"
    by (simp add: Suc.IH unat_of_nat)
  also have "\<dots> = n mod 256 ^ Suc k"
    by (simp add: mod_mult2_eq)
  finally show ?case .
qed

section \<open>What the stores of a DataView leave in the buffer\<close>

lemma ToUint32_nat: "ToUint32 (of_nat n) = word_of_nat n"
  by (simp add: ToUint32_def ToInteger_def)

lemma ToUint8_nat: "ToUint8 (of_nat n) = word_of_nat n"
  by (simp add: ToUint8_def ToInteger_def)

lemma ToUint32_numeral: "ToUint32 (numeral k) = word_of_nat (numeral k)"
  by (simp add: ToUint32_def ToInteger_def)

lemma ToUint16_numeral: "ToUint16 (numeral k) = word_of_nat (numeral k)"
  by (simp add: ToUint16_def ToInteger_def)

lemma ToUint16_one: "ToUint16 1 = word_of_nat 1"
  by (simp add: ToUint16_def ToInteger_def)

lemma ToUint32_add: "ToUint32 (numeral k + of_nat n) = word_of_nat (numeral k + n)"
proof -
  have "(numeral k :: rat) + of_nat n = of_nat (numeral k + n)" by simp
  then show ?thesis by (simp only: ToUint32_nat)
qed

lemma update4:
  assumes "i + 4 \<le> length xs"
  shows "xs[i := a, i + 1 := b, i + 2 := c, i + 3 := d] =
         take i xs @ [a, b, c, d] @ drop (i + 4) xs"
proof (rule nth_equalityI)
  show "length (xs[i := a, i + 1 := b, i + 2 := c, i + 3 := d]) =
        length (take i xs @ [a, b, c, d] @ drop (i + 4) xs)"
    using assms by simp
next
  fix j assume "j < length (xs[i := a, i + 1 := b, i + 2 := c, i + 3 := d])"
  then have j: "j < length xs" by simp
  consider "j < i" | "j = i" | "j = i + 1" | "j = i + 2" | "j = i + 3" | "i + 4 \<le> j"
    by linarith
  then show "xs[i := a, i + 1 := b, i + 2 := c, i + 3 := d] ! j =
        (take i xs @ [a, b, c, d] @ drop (i + 4) xs) ! j"
  proof cases
    case 6
    then have "(take i xs @ [a, b, c, d] @ drop (i + 4) xs) ! j = drop (i + 4) xs ! (j - (i + 4))"
      using assms by (simp add: nth_append)
    also have "\<dots> = xs ! (i + 4 + (j - (i + 4)))" using assms by (intro nth_drop) simp
    also have "i + 4 + (j - (i + 4)) = j" using 6 by arith
    finally show ?thesis using 6 by simp
  qed (use assms j in \<open>simp_all add: nth_append\<close>)
qed

lemma update2:
  assumes "i + 2 \<le> length xs"
  shows "xs[i := a, i + 1 := b] = take i xs @ [a, b] @ drop (i + 2) xs"
proof (rule nth_equalityI)
  show "length (xs[i := a, i + 1 := b]) = length (take i xs @ [a, b] @ drop (i + 2) xs)"
    using assms by simp
next
  fix j assume "j < length (xs[i := a, i + 1 := b])"
  then have j: "j < length xs" by simp
  consider "j < i" | "j = i" | "j = i + 1" | "i + 2 \<le> j"
    by linarith
  then show "xs[i := a, i + 1 := b] ! j = (take i xs @ [a, b] @ drop (i + 2) xs) ! j"
  proof cases
    case 4
    then have "(take i xs @ [a, b] @ drop (i + 2) xs) ! j = drop (i + 2) xs ! (j - (i + 2))"
      using assms by (simp add: nth_append)
    also have "\<dots> = xs ! (i + 2 + (j - (i + 2)))" using assms by (intro nth_drop) simp
    also have "i + 2 + (j - (i + 2)) = j" using 4 by arith
    finally show ?thesis using 4 by simp
  qed (use assms j in \<open>simp_all add: nth_append\<close>)
qed

lemma setUint32_le:
  assumes "byteOffset + 4 \<le> length view" and "ToUint32 v = word_of_nat n"
  shows "setUint32 byteOffset v True view =
     Inr (take byteOffset view @ le_bytes 4 n @ drop (byteOffset + 4) view)"
proof -
  let ?w = "word_of_nat n :: 32 word"
  have "setUint32 byteOffset v True view =
      Inr (view[byteOffset := ucast ?w, byteOffset + 1 := ucast (drop_bit 8 ?w),
                byteOffset + 2 := ucast (drop_bit 16 ?w), byteOffset + 3 := ucast (drop_bit 24 ?w)])"
    using assms by (simp add: setUint32_def Let_def)
  also have "\<dots> = Inr (take byteOffset view @
      [ucast ?w, ucast (drop_bit 8 ?w), ucast (drop_bit 16 ?w), ucast (drop_bit 24 ?w)] @
      drop (byteOffset + 4) view)"
    by (simp only: update4 [OF assms(1)])
  also have "[ucast ?w, ucast (drop_bit 8 ?w), ucast (drop_bit 16 ?w), ucast (drop_bit 24 ?w)]
      = le_bytes 4 n"
    by (simp add: ucast_of_nat32 le_bytes_4 ucast_drop_of_nat32 [of 8, simplified]
        ucast_drop_of_nat32 [of 16, simplified] ucast_drop_of_nat32 [of 24, simplified])
  finally show ?thesis .
qed

lemma setUint16_le:
  assumes "byteOffset + 2 \<le> length view" and "ToUint16 v = word_of_nat n"
  shows "setUint16 byteOffset v True view =
     Inr (take byteOffset view @ le_bytes 2 n @ drop (byteOffset + 2) view)"
proof -
  let ?w = "word_of_nat n :: 16 word"
  have "setUint16 byteOffset v True view =
      Inr (view[byteOffset := ucast ?w, byteOffset + 1 := ucast (drop_bit 8 ?w)])"
    using assms by (simp add: setUint16_def Let_def)
  also have "\<dots> = Inr (take byteOffset view @ [ucast ?w, ucast (drop_bit 8 ?w)] @
      drop (byteOffset + 2) view)"
    by (simp only: update2 [OF assms(1)])
  also have "[ucast ?w, ucast (drop_bit 8 ?w)] = le_bytes 2 n"
    by (simp add: ucast_of_nat16 le_bytes_2 ucast_drop_of_nat16 [of 8, simplified])
  finally show ?thesis .
qed

lemmas store_le =
  setUint32_le [OF _ ToUint32_nat] setUint32_le [OF _ ToUint32_numeral]
  setUint32_le [OF _ ToUint32_add]
  setUint16_le [OF _ ToUint16_numeral] setUint16_le [OF _ ToUint16_one]

lemma ToUint8_charCode: "ToUint8 (charCode c) = ucast c"
  unfolding charCode_def ToUint8_nat by simp

lemma writeString_le:
  "offset + length s \<le> length view \<Longrightarrow>
   writeString offset s view =
     Inr (take offset view @ map ucast s @ drop (offset + length s) view)"
proof (induction s arbitrary: offset view)
  case Nil
  then show ?case by simp
next
  case (Cons c cs)
  let ?v = "view[offset := ucast c]"
  have len: "Suc offset + length cs \<le> length ?v" using Cons.prems by simp
  have "writeString offset (c # cs) view = writeString (Suc offset) cs ?v"
    using Cons.prems by (simp add: setUint8_def ToUint8_charCode)
  also have "\<dots> = Inr (take (Suc offset) ?v @ map ucast cs @ drop (Suc offset + length cs) ?v)"
    by (rule Cons.IH [OF len])
  also have "take (Suc offset) ?v = take offset view @ [ucast c]"
    using Cons.prems by (simp add: take_Suc_conv_app_nth)
  also have "drop (Suc offset + length cs) ?v = drop (offset + length (c # cs)) view"
    by simp
  finally show ?case by simp
qed

lemma ucast_js: "map ucast (js s) = ascii s"
  by (simp add: js_def ascii_def word_unat_eq_iff unsigned_ucast_eq unsigned_of_nat
      take_bit_eq_mod mod_mod_cancel)

lemma length_js: "length (js s) = length s"
  by (simp add: js_def)

lemma ArrayBuffer_44:
  "ArrayBuffer 44 =
     [0, 0, 0, 0, 0, 0, 0, 0, 0, 0, 0, 0, 0, 0, 0, 0, 0, 0, 0, 0, 0, 0,
      0, 0, 0, 0, 0, 0, 0, 0, 0, 0, 0, 0, 0, 0, 0, 0, 0, 0, 0, 0, 0, 0]"
  by (simp add: ArrayBuffer_def numeral_eq_Suc)

lemma wavHeader_eq: "wavHeader len = Inr (spec_header 24000 1 16 len)"
proof -
  have "wavHeader len =
      statements
       [ writeString 0 (js ''RIFF''), setUint32 4 (36 + of_nat len) True,
         writeString 8 (js ''WAVE''), writeString 12 (js ''fmt ''),
         setUint32 16 16 True, setUint16 20 1 True, setUint16 22 1 True,
         setUint32 24 24000 True, setUint32 28 48000 True, setUint16 32 2 True,
         setUint16 34 16 True, writeString 36 (js ''data''),
         setUint32 40 (of_nat len) True ]
       (ArrayBuffer 44)"
    by (simp add: wavHeader_def sampleRate_def numChannels_def bitsPerSample_def)
  also have "\<dots> = Inr (spec_header 24000 1 16 len)"
    by (simp add: ArrayBuffer_44 store_le writeString_le ucast_js length_js spec_header_def
        ascii_def le_bytes_4 le_bytes_2)
  finally show ?thesis .
qed

lemma length_spec_header: "length (spec_header rate channels bits n) = 44"
  by (simp add: spec_header_def ascii_def length_le_bytes)

lemma field_spec_header:
  "field 0 4 (spec_header r c b n) = ascii ''RIFF''"
  "field 4 4 (spec_header r c b n) = le_bytes 4 (36 + n)"
  "field 8 4 (spec_header r c b n) = ascii ''WAVE''"
  "field 12 4 (spec_header r c b n) = ascii ''fmt ''"
  "field 16 4 (spec_header r c b n) = le_bytes 4 16"
  "field 20 2 (spec_header r c b n) = le_bytes 2 1"
  "field 22 2 (spec_header r c b n) = le_bytes 2 c"
  "field 24 4 (spec_header r c b n) = le_bytes 4 r"
  "field 28 4 (spec_header r c b n) = le_bytes 4 (r * c * (b div 8))"
  "field 32 2 (spec_header r c b n) = le_bytes 2 (c * (b div 8))"
  "field 34 2 (spec_header r c b n) = le_bytes 2 b"
  "field 36 4 (spec_header r c b n) = ascii ''data''"
  "field 40 4 (spec_header r c b n) = le_bytes 4 n"
  by (simp_all add: field_def spec_header_def ascii_def length_le_bytes)

lemma field_append:
  "offset + n \<le> length xs \<Longrightarrow> field offset n (xs @ ys) = field offset n xs"
  by (simp add: field_def)

lemma fillBytes_eq:
  "i + length s \<le> length bytes \<Longrightarrow>
   fillBytes i s bytes = take i bytes @ map ucast s @ drop (i + length s) bytes"
proof (induction s arbitrary: i bytes)
  case Nil
  then show ?case by simp
next
  case (Cons c cs)
  let ?b = "bytes[i := ucast c]"
  have len: "Suc i + length cs \<le> length ?b" using Cons.prems by simp
  have "fillBytes i (c # cs) bytes = fillBytes (Suc i) cs ?b"
    by (simp add: ToUint8_charCode)
  also have "\<dots> = take (Suc i) ?b @ map ucast cs @ drop (Suc i + length cs) ?b"
    by (rule Cons.IH [OF len])
  also have "take (Suc i) ?b = take i bytes @ [ucast c]"
    using Cons.prems by (simp add: take_Suc_conv_app_nth)
  also have "drop (Suc i + length cs) ?b = drop (i + length (c # cs)) bytes"
    by simp
  finally show ?case by simp
qed

lemma pcmToWav_eq:
  "pcmToWav binaryString =
     Inr (spec_header 24000 1 16 (length binaryString) @ map ucast binaryString)"
  by (simp add: pcmToWav_def Let_def wavHeader_eq typedArraySet_def Uint8Array_def
      length_spec_header fillBytes_eq)

section \<open>The header\<close>

text \<open>
  C1. For every payload length \<open>N\<close> the header that \<open>speak\<close> builds is the 44-byte
  table of the specification at 24000 Hz, 1 channel and 16 bits: "RIFF", the 32-bit
  little-endian \<open>36 + N\<close>, "WAVE", "fmt ", 16, 1, the channel count, the sample rate,
  the byte rate, the block alignment, the bits per sample, "data" and the 32-bit
  little-endian \<open>N\<close>, each at its offset; the byte-rate field holds 48000 and the
  block-alignment field holds 2. No store throws.
\<close>

theorem wavHeader_table:
  "\<exists>h. wavHeader N = Inr h \<and> length h = 44 \<and>
       h = spec_header 24000 1 16 N \<and>
       field 0 4 h = ascii ''RIFF'' \<and>
       field 4 4 h = le_bytes 4 (36 + N) \<and>
       field 8 4 h = ascii ''WAVE'' \<and>
       field 12 4 h = ascii ''fmt '' \<and>
       field 16 4 h = le_bytes 4 16 \<and>
       field 20 2 h = le_bytes 2 1 \<and>
       field 22 2 h = le_bytes 2 1 \<and>
       field 24 4 h = le_bytes 4 24000 \<and>
       field 28 4 h = le_bytes 4 (24000 * 1 * (16 div 8)) \<and>
       field 32 2 h = le_bytes 2 (1 * (16 div 8)) \<and>
       field 34 2 h = le_bytes 2 16 \<and>
       field 36 4 h = ascii ''data'' \<and>
       field 40 4 h = le_bytes 4 N \<and>
       le_value (field 28 4 h) = 48000 \<and>
       le_value (field 32 2 h) = 2"
proof -
  let ?h = "spec_header 24000 1 16 N"
  have "le_value (field 28 4 ?h) = 48000" "le_value (field 32 2 ?h) = 2"
    by (simp_all add: field_spec_header le_value_le_bytes)
  then show ?thesis
    by (simp add: wavHeader_eq length_spec_header field_spec_header)
qed

text \<open>
  C8. The header is built for every payload length, with nothing clamped or rejected:
  the field at offset 4 holds \<open>(36 + N) mod 2 ^ 32\<close> and the field at offset 40 holds
  \<open>N mod 2 ^ 32\<close>, so a length of \<open>2 ^ 32\<close> is stored as 36 and 0.
\<close>

theorem wavHeader_size_fields_wrap:
  "\<exists>h. wavHeader N = Inr h \<and>
       le_value (field 4 4 h) = (36 + N) mod 2 ^ 32 \<and>
       le_value (field 40 4 h) = N mod 2 ^ 32"
  by (simp add: wavHeader_eq field_spec_header le_value_le_bytes)

theorem wavHeader_size_fields_wrap_witness:
  "\<exists>h. wavHeader (2 ^ 32) = Inr h \<and>
       le_value (field 4 4 h) = 36 \<and> le_value (field 40 4 h) = 0"
  using wavHeader_size_fields_wrap [of "2 ^ 32"] by simp

section \<open>The playback statement\<close>

lemmas piece_defs = startDirect_def startPcm_def settle_def setRef_def onError_def
  callGenerateContent_def stopExisting_def newAudio_def emit_def

lemmas fixture_defs = env_headerless_def env_headered_def env_unplayable_def env_malformed_def
  env_no_audio_def sample_response_def busy_def earlier_audio_def

lemma base64Audio_of_sample: "base64Audio_of sample_response = Some sample_payload"
  by (simp add: base64Audio_of_def sample_response_def index0_def)

lemma sample_payload_nonempty: "sample_payload \<noteq> []"
  by (simp add: sample_payload_def js_def)

lemma length_sample_binary: "length sample_binary = 10"
  by (simp add: sample_binary_def)

lemma bytes_sample_binary: "map ucast sample_binary = [0, 1, 2, 3, 4, 5, 6, 7, 8, 9 :: byte]"
  by (simp add: sample_binary_def)



text \<open>
  C5. In the synthesized-container step the blob handed to the audio element is the
  44-byte header followed at once by the \<open>N\<close> decoded bytes, \<open>44 + N\<close> bytes in all.
  For \<open>N = 10\<close> the field at offset 40 is \<open>10 0 0 0\<close> and the blob has 54 bytes.
\<close>

theorem startPcm_blob:
  assumes "AudioContext_constructs env" and "atob env b = Some bin"
  shows "\<exists>blob audio st'.
           startPcm env b st = (Inr audio, st') \<and>
           audio_src audio = ObjectUrl blob ''audio/wav'' \<and>
           blob = spec_header 24000 1 16 (length bin) @ map ucast bin \<and>
           take 44 blob = spec_header 24000 1 16 (length bin) \<and>
           drop 44 blob = map ucast bin \<and>
           length blob = 44 + length bin \<and>
           (length bin = 10 \<longrightarrow> field 40 4 blob = [10, 0, 0, 0] \<and> length blob = 54)"
proof -
  let ?blob = "spec_header 24000 1 16 (length bin) @ map ucast bin"
  have "field 40 4 ?blob = le_bytes 4 (length bin)"
    by (simp add: field_append length_spec_header field_spec_header)
  moreover have "le_bytes 4 10 = [10, 0, 0, 0]"
    by (simp add: le_bytes_4)
  ultimately show ?thesis
    using assms by (auto simp add: piece_defs pcmToWav_eq Let_def length_spec_header)
qed

theorem startPcm_blob_witness:
  "\<exists>blob audio st'.
     startPcm env_headerless sample_payload initial = (Inr audio, st') \<and>
     audio_src audio = ObjectUrl blob ''audio/wav'' \<and>
     blob = spec_header 24000 1 16 10 @ [0, 1, 2, 3, 4, 5, 6, 7, 8, 9] \<and>
     field 40 4 blob = [10, 0, 0, 0] \<and> length blob = 54"
proof -
  have 1: "AudioContext_constructs env_headerless"
    by (simp add: fixture_defs)
  have 2: "atob env_headerless sample_payload = Some sample_binary"
    by (simp add: fixture_defs)
  from startPcm_blob [OF 1 2, of initial] show ?thesis
    by (auto simp add: length_sample_binary bytes_sample_binary)
qed

text \<open>
  C6. With an absent or empty payload the playback statement does nothing and raises
  nothing. A call of \<open>speak\<close> whose response carries no payload ends after the stop
  and the request: no header, no \<open>play()\<close>, no recorded element, no error handler.
\<close>

theorem playAudio_absent_noop:
  assumes "base64Audio = None \<or> base64Audio = Some []"
  shows "playAudio env base64Audio st = (Inr (), st) \<and>
         (generateContent env (requestText text) = Some response \<and>
          base64Audio_of response = base64Audio \<longrightarrow>
            speakTry env text st = (Inr (), callGenerateContent text (stopExisting env st)) \<and>
            speak env text st = callGenerateContent text (stopExisting env st) \<and>
            audioRef_current (speak env text st) = None \<and>
            set (playing (speak env text st)) \<subseteq> set (playing st) \<and>
            next_id (speak env text st) = next_id st)"
  using assms
  by (auto simp add: playAudio_def truthy_def speak_def speakTry_def piece_defs Let_def
      split: option.splits)

theorem playAudio_absent_noop_witness:
  "playAudio env_no_audio None busy = (Inr (), busy) \<and>
   speak env_no_audio (js ''hi'') busy =
     callGenerateContent (js ''hi'') (stopExisting env_no_audio busy) \<and>
   audioRef_current (speak env_no_audio (js ''hi'') busy) = None"
proof -
  have 1: "(None :: jsstring option) = None \<or> (None :: jsstring option) = Some []"
    by simp
  have 2: "generateContent env_no_audio (requestText (js ''hi'')) = Some (Response None)"
    by (simp add: fixture_defs)
  have 3: "base64Audio_of (Response None) = None"
    by (simp add: base64Audio_of_def index0_def)
  from playAudio_absent_noop [OF 1, of env_no_audio busy "js ''hi''" "Response None"] 2 3
  show ?thesis by blast
qed

text \<open>
  C3. When the direct attempt rejects and the synthesized-container attempt raises too
  (no AudioContext, \<open>atob\<close> throws, or \<open>play()\<close> on the blob rejects), the playback
  statement of lines 145 to 207 ends with that exception. The statement itself records
  and starts no element, queues no utterance and never calls \<open>speechSynthesis.speak\<close>:
  it leaves \<open>audioRef.current\<close>, the playing elements and the utterance queue as they
  were. The exception leaves the body of the outer \<open>try\<close>, which has not spoken
  either, and reaches the handler of lines 208 to 216. The native fallback is performed
  there and only there: the handler logs the error and, where \<open>speechSynthesis\<close>
  exists, speaks the whole text in \<open>ar-SA\<close>, which is then the one queued utterance.
  After the whole call \<open>audioRef.current\<close> is empty and no element has been started.
\<close>

theorem both_strategies_fail:
  assumes "b \<noteq> []" and "\<not> audio_play env (dataUri b)"
    and "\<not> AudioContext_constructs env \<or> atob env b = None \<or>
         (\<exists>bin. atob env b = Some bin \<and>
            \<not> audio_play env (ObjectUrl (spec_header 24000 1 16 (length bin) @ map ucast bin) ''audio/wav''))"
  shows "\<exists>err st'.
           playAudio env (Some b) st = (Inl err, st') \<and>
           audioRef_current st' = audioRef_current st \<and>
           playing st' = playing st \<and>
           utterances st' = utterances st \<and>
           spoken (events_since st st') = [] \<and>
           (generateContent env (requestText text) = Some response \<and>
            base64Audio_of response = Some b \<longrightarrow>
              (\<exists>st''. speakTry env text st = (Inl err, st'') \<and>
                      audioRef_current st'' = None \<and>
                      playing st'' = playing (stopExisting env st) \<and>
                      utterances st'' = utterances (stopExisting env st) \<and>
                      spoken (events_since st st'') = [] \<and>
                      speak env text st = onError env text err st'' \<and>
                      events_since st'' (speak env text st) =
                        (if speechSynthesis_in_window env
                         then [ConsoleError err, SpeechSpeak text ''ar-SA'']
                         else [ConsoleError err]) \<and>
                      spoken (events_since st (speak env text st)) =
                        (if speechSynthesis_in_window env then [(text, ''ar-SA'')] else []) \<and>
                      utterances (speak env text st) =
                        (if speechSynthesis_in_window env then [(text, ''ar-SA'')]
                         else utterances st) \<and>
                      audioRef_current (speak env text st) = None \<and>
                      playing (speak env text st) = playing (stopExisting env st)))"
  using assms
  by (auto simp add: playAudio_def playBase64_def truthy_def speak_def speakTry_def piece_defs
      Let_def pcmToWav_eq events_since_def split: option.splits)

theorem both_strategies_fail_witness:
  "\<exists>err st' st''.
     playAudio env_unplayable (Some sample_payload) busy = (Inl err, st') \<and>
     audioRef_current st' = Some earlier_audio \<and>
     utterances st' = [(js ''hello'', ''ar-SA'')] \<and>
     spoken (events_since busy st') = [] \<and>
     speakTry env_unplayable (js ''hi'') busy = (Inl err, st'') \<and>
     audioRef_current st'' = None \<and>
     spoken (events_since busy st'') = [] \<and>
     speak env_unplayable (js ''hi'') busy = onError env_unplayable (js ''hi'') err st'' \<and>
     events_since st'' (speak env_unplayable (js ''hi'') busy) =
       [ConsoleError err, SpeechSpeak (js ''hi'') ''ar-SA''] \<and>
     spoken (events_since busy (speak env_unplayable (js ''hi'') busy)) = [(js ''hi'', ''ar-SA'')] \<and>
     utterances (speak env_unplayable (js ''hi'') busy) = [(js ''hi'', ''ar-SA'')] \<and>
     audioRef_current (speak env_unplayable (js ''hi'') busy) = None \<and>
     playing (speak env_unplayable (js ''hi'') busy) = []"
proof -
  have 1: "\<not> audio_play env_unplayable (dataUri sample_payload)"
    by (simp add: fixture_defs)
  have 2: "\<not> AudioContext_constructs env_unplayable \<or> atob env_unplayable sample_payload = None \<or>
      (\<exists>bin. atob env_unplayable sample_payload = Some bin \<and>
         \<not> audio_play env_unplayable
             (ObjectUrl (spec_header 24000 1 16 (length bin) @ map ucast bin) ''audio/wav''))"
    by (simp add: fixture_defs)
  have 3: "generateContent env_unplayable (requestText (js ''hi'')) = Some sample_response"
    "speechSynthesis_in_window env_unplayable"
    by (simp_all add: env_unplayable_def env_headerless_def)
  have 4: "playing (stopExisting env_unplayable busy) = []" "audioRef_current busy = Some earlier_audio"
    "utterances busy = [(js ''hello'', ''ar-SA'')]"
    by (simp_all add: stopExisting_def emit_def busy_def Let_def)
  from both_strategies_fail [OF sample_payload_nonempty 1 2, of busy "js ''hi''" sample_response]
    3 4 base64Audio_of_sample
  show ?thesis by auto
qed

text \<open>
  C7. A payload on which \<open>atob\<close> throws is not rejected up front: the first thing the
  playback statement does with it is the direct attempt. When that rejects, the
  exception is raised at the \<open>atob\<close> call of the catch block, the last platform call
  of the statement, and it takes the path of a rejected \<open>play()\<close> of the blob: the
  same handler runs, and \<open>audioRef.current\<close>, the playing elements and the queued
  utterances end the same. The platform is one where an AudioContext can be
  constructed, so that line 155 is reached.
\<close>

theorem malformed_base64:
  assumes "b \<noteq> []" and "atob env b = None" and "AudioContext_constructs env"
  shows "(\<exists>rest. events_since st (snd (playAudio env (Some b) st)) =
                  Play \<lparr>audio_id = next_id st, audio_src = dataUri b\<rparr> # rest) \<and>
         (\<not> audio_play env (dataUri b) \<longrightarrow>
            (\<exists>st'. playAudio env (Some b) st = (Inl InvalidCharacterError, st') \<and>
                   events_since st st' =
                     [Play \<lparr>audio_id = next_id st, audio_src = dataUri b\<rparr>,
                      ConsoleLog, NewAudioContext, Atob b]) \<and>
            (generateContent env (requestText text) = Some response \<and>
             base64Audio_of response = Some b \<longrightarrow>
               (\<exists>st'. speakTry env text st = (Inl InvalidCharacterError, st') \<and>
                  speak env text st = onError env text InvalidCharacterError st') \<and>
               (\<forall>bin. let env' = env\<lparr>atob := (\<lambda>_. Some bin), audio_play := (\<lambda>_. False)\<rparr> in
                  (\<exists>st'. speakTry env' text st = (Inl PlayRejected, st') \<and>
                     speak env' text st = onError env' text PlayRejected st') \<and>
                  audioRef_current (speak env text st) = audioRef_current (speak env' text st) \<and>
                  playing (speak env text st) = playing (speak env' text st) \<and>
                  utterances (speak env text st) = utterances (speak env' text st))))"
  using assms
  by (auto simp add: playAudio_def playBase64_def truthy_def speak_def speakTry_def piece_defs
      Let_def pcmToWav_eq events_since_def split: option.splits)

theorem malformed_base64_witness:
  "(\<exists>st'. playAudio env_malformed (Some sample_payload) initial = (Inl InvalidCharacterError, st') \<and>
      events_since initial st' =
        [Play \<lparr>audio_id = 0, audio_src = dataUri sample_payload\<rparr>,
         ConsoleLog, NewAudioContext, Atob sample_payload]) \<and>
   (\<exists>st'. speakTry env_malformed (js ''hi'') initial = (Inl InvalidCharacterError, st') \<and>
      speak env_malformed (js ''hi'') initial =
        onError env_malformed (js ''hi'') InvalidCharacterError st') \<and>
   utterances (speak env_malformed (js ''hi'') initial) =
     utterances (speak (env_malformed\<lparr>atob := (\<lambda>_. Some sample_binary),
                                       audio_play := (\<lambda>_. False)\<rparr>) (js ''hi'') initial)"
proof -
  have 1: "atob env_malformed sample_payload = None" "AudioContext_constructs env_malformed"
    "\<not> audio_play env_malformed (dataUri sample_payload)"
    "generateContent env_malformed (requestText (js ''hi'')) = Some sample_response"
    by (simp_all add: fixture_defs)
  have 2: "next_id initial = 0"
    by (simp add: initial_def)
  from malformed_base64 [OF sample_payload_nonempty 1(1) 1(2), of initial "js ''hi''" sample_response]
    1(3) 1(4) 2 base64Audio_of_sample
  show ?thesis by (simp add: Let_def)
qed

section \<open>The whole call\<close>

lemma requestText_take: "requestText text = take 300 text"
  by (simp add: requestText_def substring_def Let_def min_def)



text \<open>
  C10. The backend receives \<open>text.substring(0, 300)\<close>, the first 300 code units of the
  text at most, and that is the only request of the call. When the body of the \<open>try\<close>
  fails, the native fallback speaks the whole text. A text of more than 300 code units
  is therefore sent cut.
\<close>

theorem speak_truncates_request:
  "requestText text = take 300 text \<and>
   length (requestText text) \<le> 300 \<and>
   (300 < length text \<longrightarrow> requestText text \<noteq> text) \<and>
   requests (events_since st (speak env text st)) = [take 300 text] \<and>
   (\<forall>err st'. speakTry env text st = (Inl err, st') \<and> speechSynthesis_in_window env \<longrightarrow>
      events_since st' (speak env text st) = [ConsoleError err, SpeechSpeak text ''ar-SA''] \<and>
      utterances (speak env text st) = [(text, ''ar-SA'')])"
proof -
  have "300 < length text \<longrightarrow> take 300 text \<noteq> text"
    by (metis length_take min.absorb2 less_imp_le_nat less_irrefl)
  moreover have "requests (events_since st (speak env text st)) = [take 300 text]"
    by (auto simp add: playAudio_def playBase64_def speak_def speakTry_def piece_defs
      Let_def pcmToWav_eq events_since_def requestText_take split: option.splits)
  moreover have "\<forall>err st'. speakTry env text st = (Inl err, st') \<and> speechSynthesis_in_window env \<longrightarrow>
      events_since st' (speak env text st) = [ConsoleError err, SpeechSpeak text ''ar-SA''] \<and>
      utterances (speak env text st) = [(text, ''ar-SA'')]"
    by (auto simp add: playAudio_def playBase64_def speak_def speakTry_def piece_defs
      Let_def pcmToWav_eq events_since_def split: option.splits if_splits)
  ultimately show ?thesis
    by (simp add: requestText_take)
qed

theorem speak_truncates_request_witness:
  "requestText long_text = replicate 300 97 \<and>
   requestText long_text \<noteq> long_text \<and>
   requests (events_since busy (speak env_offline long_text busy)) = [replicate 300 97] \<and>
   utterances (speak env_offline long_text busy) = [(long_text, ''ar-SA'')]"
proof -
  have 1: "take 300 long_text = replicate 300 97" "300 < length long_text"
    by (simp_all add: long_text_def)
  have 2: "speechSynthesis_in_window env_offline"
    by (simp add: env_offline_def fixture_defs)
  have 3: "\<exists>st'. speakTry env_offline long_text busy = (Inl ApiError, st')"
    by (simp add: speakTry_def env_offline_def fixture_defs)
  from speak_truncates_request [of long_text busy env_offline] 1 2 3
  show ?thesis by auto
qed

section \<open>Overlapping calls\<close>

text \<open>A call that runs alone, resumed at each of its three awaits, is \<open>speak\<close>.\<close>

lemma speak_as_steps:
  "exec env [Call text, Resume 0, Resume 0, Resume 0] ([], st) = ([(text, Finished)], speak env text st)"
  by (auto simp add: exec_def enter_def speak_def speakTry_def playAudio_def playBase64_def
      Let_def split: option.splits prod.splits sum.splits)

text \<open>Calls that run one after the other keep at most one element playing, the
  recorded one.\<close>

lemma recorded_only_speak:
  "recorded_only st \<Longrightarrow> recorded_only (speak env text st)"
  by (auto simp add: recorded_only_def playAudio_def playBase64_def speak_def speakTry_def piece_defs
      Let_def pcmToWav_eq split: option.splits)

lemma recorded_only_at_most_one: "recorded_only st \<Longrightarrow> length (playing st) \<le> 1"
  by (simp add: recorded_only_def split: option.splits)

text \<open>The same two calls, the second one made after the first has finished: the first
  element is paused when the second call starts, and one element plays at the end.\<close>

lemma sequential_calls_play_one:
  "playing (snd (exec env_headered
     [Call (js ''a''), Resume 0, Resume 0, Call (js ''b''), Resume 1, Resume 1] ([], initial))) =
   [\<lparr>audio_id = 1, audio_src = dataUri sample_payload\<rparr>]"
  by (simp add: exec_def enter_def initial_def fixture_defs piece_defs Let_def requestText_take
      base64Audio_of_def index0_def truthy_def sample_payload_nonempty length_js)

text \<open>
  C4. Two calls that overlap: the second call starts while the first one waits for the
  backend, and the backend then answers both with a payload that plays directly. Each
  call pauses what is recorded when it starts, which is nothing; the first element is
  never paused, both elements play at the end, and only the second one is recorded.
\<close>

theorem overlapping_calls_play_two:
  "exec env_headered
     [Call (js ''a''), Call (js ''b''), Resume 0, Resume 0, Resume 1, Resume 1] ([], initial) =
   ([(js ''a'', Finished), (js ''b'', Finished)],
    \<lparr>audioRef_current = Some \<lparr>audio_id = 1, audio_src = dataUri sample_payload\<rparr>,
      playing = [\<lparr>audio_id = 0, audio_src = dataUri sample_payload\<rparr>,
                 \<lparr>audio_id = 1, audio_src = dataUri sample_payload\<rparr>],
      utterances = [], next_id = 2,
      trace = [SpeechCancel, GenerateContent (js ''a''), SpeechCancel, GenerateContent (js ''b''),
               Play \<lparr>audio_id = 0, audio_src = dataUri sample_payload\<rparr>,
               Play \<lparr>audio_id = 1, audio_src = dataUri sample_payload\<rparr>]\<rparr>)"
  by (simp add: exec_def enter_def initial_def fixture_defs piece_defs Let_def requestText_take
      base64Audio_of_def index0_def truthy_def sample_payload_nonempty length_js)

end
